theory Spec2Isabelle
  imports Complex_Main
begin

section \<open>JavaScript values\<close>

text \<open>
  Values that cross the wire or are held in dynamically typed fields (\<open>any\<close>) are
  JavaScript values. Finite numbers are rationals, \<open>NaN\<close> is a value of its own;
  \<open>JDate v\<close> stands for the object \<open>new Date(v)\<close>.
\<close>

datatype jsval =
    JUndefined
  | JNull
  | JBool bool
  | JNum rat
  | JNaN
  | JStr string
  | JArr "jsval list"
  | JObj "(string \<times> jsval) list"
  | JDate jsval

datatype js_error = Error string | TypeError | SyntaxError

text \<open>Truthiness, as used by \<open>!x\<close>, \<open>x || y\<close> and \<open>if (x)\<close>.\<close>

fun truthy :: "jsval \<Rightarrow> bool" where
  "truthy JUndefined = False"
| "truthy JNull = False"
| "truthy (JBool b) = b"
| "truthy (JNum r) = (r \<noteq> 0)"
| "truthy JNaN = False"
| "truthy (JStr s) = (s \<noteq> [])"
| "truthy (JArr xs) = True"
| "truthy (JObj kvs) = True"
| "truthy (JDate v) = True"

text \<open>\<open>a || b\<close>\<close>

definition js_or :: "jsval \<Rightarrow> jsval \<Rightarrow> jsval" where
  "js_or a b = (if truthy a then a else b)"

text \<open>
  Property read \<open>v.k\<close> for the property names this program reads (none of them is a
  built-in property of strings, numbers, arrays or dates): a \<open>TypeError\<close> on
  \<open>undefined\<close> and \<open>null\<close>, the stored value on an object, \<open>undefined\<close> otherwise.
\<close>

fun get_prop :: "jsval \<Rightarrow> string \<Rightarrow> js_error + jsval" where
  "get_prop JUndefined k = Inl TypeError"
| "get_prop JNull k = Inl TypeError"
| "get_prop (JObj kvs) k = Inr (case map_of kvs k of None \<Rightarrow> JUndefined | Some v \<Rightarrow> v)"
| "get_prop v k = Inr JUndefined"

text \<open>Optional chaining \<open>v?.k\<close>: \<open>undefined\<close> on \<open>undefined\<close> and \<open>null\<close>.\<close>

fun get_prop_opt :: "jsval \<Rightarrow> string \<Rightarrow> jsval" where
  "get_prop_opt (JObj kvs) k = (case map_of kvs k of None \<Rightarrow> JUndefined | Some v \<Rightarrow> v)"
| "get_prop_opt v k = JUndefined"

text \<open>
  What the program takes from its platform: the built-ins \<open>JSON.parse\<close> (\<open>None\<close> when it
  throws \<open>SyntaxError\<close>), \<open>JSON.stringify\<close>, the string conversion applied by \<open>+\<close> and by
  \<open>localStorage.setItem\<close>, and the build-time configuration
  \<open>API_CONFIG.WS_BASE_URL\<close> and \<open>API_CONFIG.BASE_URL\<close>.
\<close>

record platform =
  JSON_parse :: "string \<Rightarrow> jsval option"
  JSON_stringify :: "jsval \<Rightarrow> string"
  ToString :: "jsval \<Rightarrow> string"
  WS_BASE_URL :: string
  BASE_URL :: string

text \<open>\<open>s + v\<close> for a string \<open>s\<close>.\<close>

definition str_plus :: "platform \<Rightarrow> string \<Rightarrow> jsval \<Rightarrow> string" where
  "str_plus P s v = s @ (case v of JStr t \<Rightarrow> t | _ \<Rightarrow> ToString P v)"

section \<open>The streaming chat client (\<open>services/chat.ts\<close>)\<close>

subsection \<open>State\<close>

text \<open>
  A browser \<open>WebSocket\<close> object: its URL, its \<open>readyState\<close>, the payloads handed to
  \<open>send\<close> so far, and the state of the promise returned by the \<open>connect()\<close> call that
  created it (\<open>resolve\<close> and \<open>reject\<close> settle a promise once; later calls do nothing).
\<close>

datatype readyState = CONNECTING | OPEN | CLOSING | CLOSED

datatype promise = Pending | Resolved | Rejected js_error

record WebSocket =
  url :: string
  readyState :: readyState
  sent :: "string list"
  promise :: promise

definition settle :: "promise \<Rightarrow> promise \<Rightarrow> promise" where
  "settle outcome p = (case p of Pending \<Rightarrow> outcome | _ \<Rightarrow> p)"

text \<open>
  The fields of class \<open>WebSocketChatClient\<close>. \<open>ws\<close> is a reference into the store of
  socket objects (\<open>None\<close> is \<open>null\<close>). The event handlers are optional fields set by
  the caller; they act on the caller's state \<open>'u\<close>. The handlers that receive a message
  may throw, and one that throws has changed nothing by then (as the chat panel's do);
  \<open>onConnect\<close>, \<open>onDisconnect\<close> and \<open>onError\<close> are taken to return normally.
\<close>

record 'u WebSocketChatClient =
  ws :: "nat option"
  chatId :: string
  documentId :: string
  reconnectAttempts :: nat
  maxReconnectAttempts :: nat
  reconnectInterval :: nat
  isIntentionallyClosed :: bool
  onConnect :: "('u \<Rightarrow> 'u) option"
  onDisconnect :: "('u \<Rightarrow> 'u) option"
  onError :: "('u \<Rightarrow> 'u) option"
  onToken :: "(jsval \<Rightarrow> 'u \<Rightarrow> js_error + 'u) option"
  onResponseComplete :: "(jsval \<Rightarrow> 'u \<Rightarrow> js_error + 'u) option"
  onMessage :: "(jsval \<Rightarrow> 'u \<Rightarrow> js_error + 'u) option"
  onChatError :: "(jsval \<Rightarrow> 'u \<Rightarrow> js_error + 'u) option"

text \<open>The constructor: the field initialisers of the class, no handler set.\<close>

definition new_WebSocketChatClient :: "string \<Rightarrow> string \<Rightarrow> 'u WebSocketChatClient" where
  "new_WebSocketChatClient cid did =
     \<lparr> ws = None, chatId = cid, documentId = did,
       reconnectAttempts = 0, maxReconnectAttempts = 5, reconnectInterval = 1000,
       isIntentionallyClosed = False,
       onConnect = None, onDisconnect = None, onError = None,
       onToken = None, onResponseComplete = None, onMessage = None, onChatError = None \<rparr>"

text \<open>
  The world one client lives in: the client object, the socket objects created so far
  (a socket's handlers stay attached to it after \<open>this.ws\<close> moves on), the delays of the
  pending \<open>setTimeout\<close> calls (each one holds the reconnect closure), the caller's
  state, and \<open>localStorage\<close>.
\<close>

record 'u world =
  client :: "'u WebSocketChatClient"
  sockets :: "WebSocket list"
  timers :: "nat list"
  ui :: 'u
  localStorage :: "string \<rightharpoonup> string"

definition ACCESS_TOKEN_KEY :: string where "ACCESS_TOKEN_KEY = ''chatpdf_access_token''"
definition REFRESH_TOKEN_KEY :: string where "REFRESH_TOKEN_KEY = ''chatpdf_refresh_token''"
definition USER_KEY :: string where "USER_KEY = ''chatpdf_user''"
definition AUTH_STORE_KEY :: string where "AUTH_STORE_KEY = ''auth-store''"

text \<open>\<open>h?.()\<close> and \<open>h?.(data)\<close>\<close>

definition call0 :: "('u \<Rightarrow> 'u) option \<Rightarrow> 'u \<Rightarrow> 'u" where
  "call0 h u = (case h of None \<Rightarrow> u | Some f \<Rightarrow> f u)"

definition call1 :: "(jsval \<Rightarrow> 'u \<Rightarrow> js_error + 'u) option \<Rightarrow> jsval \<Rightarrow> 'u \<Rightarrow> js_error + 'u" where
  "call1 h d u = (case h of None \<Rightarrow> Inr u | Some f \<Rightarrow> f d u)"

definition socket_at :: "'u world \<Rightarrow> nat \<Rightarrow> WebSocket option" where
  "socket_at w i = (if i < length (sockets w) then Some (sockets w ! i) else None)"

definition update_socket :: "nat \<Rightarrow> (WebSocket \<Rightarrow> WebSocket) \<Rightarrow> 'u world \<Rightarrow> 'u world" where
  "update_socket i f w =
     (if i < length (sockets w) then w\<lparr>sockets := (sockets w)[i := f (sockets w ! i)]\<rparr> else w)"

subsection \<open>Operations\<close>

text \<open>
  \<open>connect()\<close>: without a (non-empty) access token the returned promise is rejected and
  nothing else happens. Otherwise a socket is created in state \<open>CONNECTING\<close> and becomes
  \<open>this.ws\<close>; its promise is pending until the socket opens or fails. \<open>Inl\<close> is the
  rejection that happens before any socket exists. The browser is taken to accept the URL
  (configuration and identifiers give a well-formed one), so the \<open>WebSocket\<close>
  constructor does not throw. A socket the client held before is not closed.
\<close>

definition connect :: "platform \<Rightarrow> 'u world \<Rightarrow> js_error + 'u world" where
  "connect P w =
     (case localStorage w ACCESS_TOKEN_KEY of
        None \<Rightarrow> Inl (Error ''No access token available'')
      | Some accessToken \<Rightarrow>
          if accessToken = [] then Inl (Error ''No access token available'')
          else
            let wsUrl = WS_BASE_URL P @ ''/ws/chat/'' @ chatId (client w) @ ''/document/''
                          @ documentId (client w) @ ''/?token='' @ accessToken
            in Inr (w\<lparr> sockets := sockets w @
                          [\<lparr>url = wsUrl, readyState = CONNECTING, sent = [], promise = Pending\<rparr>],
                        client := (client w)\<lparr>ws := Some (length (sockets w))\<rparr> \<rparr>))"

text \<open>\<open>ws.onopen\<close> of socket \<open>i\<close>\<close>

definition onopen :: "nat \<Rightarrow> 'u world \<Rightarrow> 'u world" where
  "onopen i w =
     update_socket i (\<lambda>s. s\<lparr>promise := settle Resolved (promise s)\<rparr>)
       (w\<lparr> client := (client w)\<lparr>reconnectAttempts := 0\<rparr>,
           ui := call0 (onConnect (client w)) (ui w) \<rparr>)"

text \<open>
  \<open>handleMessage\<close>: the \<open>switch\<close> on \<open>data.type\<close> (strict equality with the string
  literals). The branches that only write to the console leave the state as it is.
\<close>

definition handleMessage :: "'u WebSocketChatClient \<Rightarrow> jsval \<Rightarrow> 'u \<Rightarrow> js_error + 'u" where
  "handleMessage c data u =
     (case get_prop data ''type'' of
        Inl e \<Rightarrow> Inl e
      | Inr t \<Rightarrow>
          if t = JStr ''connection'' then Inr u
          else if t = JStr ''message_saved'' then Inr u
          else if t = JStr ''response_start'' then Inr u
          else if t = JStr ''token'' then call1 (onToken c) data u
          else if t = JStr ''chunks_retrieved'' then Inr u
          else if t = JStr ''response_complete'' then call1 (onResponseComplete c) data u
          else if t = JStr ''settings_updated'' then Inr u
          else if t = JStr ''error'' then call1 (onChatError c) data u
          else call1 (onMessage c) data u)"

text \<open>
  \<open>ws.onmessage\<close>: \<open>JSON.parse\<close> and \<open>handleMessage\<close> run inside one \<open>try\<close>; whatever
  they throw is written to the console and the payload is dropped.
\<close>

definition onmessage :: "platform \<Rightarrow> 'u world \<Rightarrow> string \<Rightarrow> js_error + 'u world" where
  "onmessage P w event_data =
     (case JSON_parse P event_data of
        None \<Rightarrow> Inr w
      | Some data \<Rightarrow>
          (case handleMessage (client w) data (ui w) of
             Inl e \<Rightarrow> Inr w
           | Inr u \<Rightarrow> Inr (w\<lparr>ui := u\<rparr>)))"

text \<open>
  \<open>ws.onclose\<close>: the event's \<open>code\<close> and \<open>reason\<close> are only written to the console. The delay handed to \<open>setTimeout\<close> is computed when the timer is set,
  from the counter as it is then; the counter is incremented by the timer's callback.
\<close>

definition onclose :: "nat \<Rightarrow> string \<Rightarrow> 'u world \<Rightarrow> 'u world" where
  "onclose code reason w =
     (let w1 = w\<lparr>ui := call0 (onDisconnect (client w)) (ui w)\<rparr>
      in if \<not> isIntentionallyClosed (client w1)
            \<and> reconnectAttempts (client w1) < maxReconnectAttempts (client w1)
         then w1\<lparr>timers := timers w1 @
                    [reconnectInterval (client w1) * reconnectAttempts (client w1)]\<rparr>
         else w1)"

text \<open>The closure handed to \<open>setTimeout\<close>; the promise of its \<open>connect()\<close> is dropped.\<close>

definition reconnect_callback :: "platform \<Rightarrow> 'u world \<Rightarrow> 'u world" where
  "reconnect_callback P w =
     (let w1 = w\<lparr>client := (client w)\<lparr>reconnectAttempts := reconnectAttempts (client w) + 1\<rparr>\<rparr>
      in case connect P w1 of Inl e \<Rightarrow> w1 | Inr w2 \<Rightarrow> w2)"

text \<open>\<open>ws.onerror\<close> of socket \<open>i\<close>\<close>

definition onerror :: "nat \<Rightarrow> 'u world \<Rightarrow> 'u world" where
  "onerror i w =
     update_socket i
       (\<lambda>s. s\<lparr>promise := settle (Rejected (Error ''WebSocket connection failed'')) (promise s)\<rparr>)
       (w\<lparr>ui := call0 (onError (client w)) (ui w)\<rparr>)"

text \<open>\<open>WebSocket.close()\<close>: a socket that is not yet closed starts closing.\<close>

definition ws_close :: "WebSocket \<Rightarrow> WebSocket" where
  "ws_close s = (if readyState s = CLOSED then s else s\<lparr>readyState := CLOSING\<rparr>)"

definition disconnect :: "'u world \<Rightarrow> 'u world" where
  "disconnect w =
     (let w1 = w\<lparr>client := (client w)\<lparr>isIntentionallyClosed := True\<rparr>\<rparr>
      in case ws (client w1) of
           None \<Rightarrow> w1
         | Some i \<Rightarrow> (update_socket i ws_close w1)\<lparr>client := (client w1)\<lparr>ws := None\<rparr>\<rparr>)"

text \<open>
  The guard of \<open>sendMessage\<close>, \<open>updateSettings\<close> and \<open>isConnected\<close>:
  \<open>this.ws !== null && this.ws.readyState === WebSocket.OPEN\<close>.
\<close>

definition isConnected :: "'u world \<Rightarrow> bool" where
  "isConnected w =
     (case ws (client w) of
        None \<Rightarrow> False
      | Some i \<Rightarrow> (case socket_at w i of None \<Rightarrow> False | Some s \<Rightarrow> readyState s = OPEN))"

definition ws_send :: "string \<Rightarrow> 'u world \<Rightarrow> 'u world" where
  "ws_send payload w =
     (case ws (client w) of
        None \<Rightarrow> w
      | Some i \<Rightarrow> update_socket i (\<lambda>s. s\<lparr>sent := sent s @ [payload]\<rparr>) w)"

text \<open>The \<open>options\<close> argument of \<open>sendMessage\<close>; an absent option is \<open>undefined\<close>.\<close>

record options =
  model :: jsval
  temperature :: jsval
  max_tokens :: jsval

definition WSChatMessage :: "string \<Rightarrow> options \<Rightarrow> jsval" where
  "WSChatMessage message opts =
     JObj [ (''type'', JStr ''chat_message''),
            (''message'', JStr message),
            (''model'', js_or (model opts) (JStr ''standard'')),
            (''temperature'', js_or (temperature opts) (JNum (7 / 10))),
            (''max_tokens'', js_or (max_tokens opts) (JNum 2048)) ]"

definition sendMessage :: "platform \<Rightarrow> string \<Rightarrow> options \<Rightarrow> 'u world \<Rightarrow> js_error + 'u world" where
  "sendMessage P message opts w =
     (if \<not> isConnected w then Inl (Error ''WebSocket is not connected'')
      else Inr (ws_send (JSON_stringify P (WSChatMessage message opts)) w))"

text \<open>
  Object spread \<open>{type: 'settings_update', ...settings}\<close>: each property of
  \<open>settings\<close> in turn replaces the value of a key already present or is added at the end.
\<close>

fun obj_set :: "(string \<times> jsval) list \<Rightarrow> string \<Rightarrow> jsval \<Rightarrow> (string \<times> jsval) list" where
  "obj_set [] k v = [(k, v)]"
| "obj_set ((k', v') # kvs) k v = (if k' = k then (k, v) # kvs else (k', v') # obj_set kvs k v)"

definition obj_spread :: "(string \<times> jsval) list \<Rightarrow> (string \<times> jsval) list \<Rightarrow> (string \<times> jsval) list" where
  "obj_spread base props = foldl (\<lambda>acc (k, v). obj_set acc k v) base props"

definition updateSettings :: "platform \<Rightarrow> (string \<times> jsval) list \<Rightarrow> 'u world \<Rightarrow> js_error + 'u world" where
  "updateSettings P settings w =
     (if \<not> isConnected w then Inl (Error ''WebSocket is not connected'')
      else Inr (ws_send (JSON_stringify P
                  (JObj (obj_spread [(''type'', JStr ''settings_update'')] settings))) w))"

subsection \<open>Events\<close>

text \<open>
  What can happen to a client: a call of one of its operations, an event the browser fires on
  one of its sockets, or a pending timer firing. The browser sets \<open>readyState\<close> before it
  calls the handler, opens only a connecting socket, delivers messages only on an open
  one, and fires \<open>error\<close> and \<open>close\<close> only on a socket that is not closed yet. An
  exception thrown by a call goes to the caller and leaves the state as it was.
\<close>

datatype event =
    CallConnect
  | CallDisconnect
  | CallSendMessage string options
  | CallUpdateSettings "(string \<times> jsval) list"
  | SocketOpen nat
  | SocketMessage nat string
  | SocketError nat
  | SocketClose nat nat string
  | TimerFires nat

definition ready :: "'u world \<Rightarrow> nat \<Rightarrow> readyState option" where
  "ready w i = map_option readyState (socket_at w i)"

definition remove_nth :: "nat \<Rightarrow> 'a list \<Rightarrow> 'a list" where
  "remove_nth k xs = take k xs @ drop (Suc k) xs"

fun step :: "platform \<Rightarrow> event \<Rightarrow> 'u world \<Rightarrow> 'u world" where
  "step P CallConnect w = (case connect P w of Inl e \<Rightarrow> w | Inr w' \<Rightarrow> w')"
| "step P CallDisconnect w = disconnect w"
| "step P (CallSendMessage message opts) w =
     (case sendMessage P message opts w of Inl e \<Rightarrow> w | Inr w' \<Rightarrow> w')"
| "step P (CallUpdateSettings settings) w =
     (case updateSettings P settings w of Inl e \<Rightarrow> w | Inr w' \<Rightarrow> w')"
| "step P (SocketOpen i) w =
     (if ready w i = Some CONNECTING
      then onopen i (update_socket i (\<lambda>s. s\<lparr>readyState := OPEN\<rparr>) w) else w)"
| "step P (SocketMessage i event_data) w =
     (if ready w i = Some OPEN
      then (case onmessage P w event_data of Inl e \<Rightarrow> w | Inr w' \<Rightarrow> w') else w)"
| "step P (SocketError i) w =
     (if ready w i \<noteq> None \<and> ready w i \<noteq> Some CLOSED then onerror i w else w)"
| "step P (SocketClose i code reason) w =
     (if ready w i \<noteq> None \<and> ready w i \<noteq> Some CLOSED
      then onclose code reason (update_socket i (\<lambda>s. s\<lparr>readyState := CLOSED\<rparr>) w) else w)"
| "step P (TimerFires k) w =
     (if k < length (timers w)
      then reconnect_callback P (w\<lparr>timers := remove_nth k (timers w)\<rparr>) else w)"

definition run :: "platform \<Rightarrow> event list \<Rightarrow> 'u world \<Rightarrow> 'u world" where
  "run P es w = foldl (\<lambda>w e. step P e w) w es"

text \<open>A client fresh from its constructor, with the handlers the caller assigns.\<close>

definition new_world :: "'u WebSocketChatClient \<Rightarrow> 'u \<Rightarrow> (string \<rightharpoonup> string) \<Rightarrow> 'u world" where
  "new_world c u store = \<lparr>client = c, sockets = [], timers = [], ui = u, localStorage = store\<rparr>"

text \<open>Concrete values used to exercise the theorems below.\<close>

definition example_platform :: platform where
  "example_platform =
     \<lparr> JSON_parse = (\<lambda>s. if s = ''null'' then Some JNull else None),
       JSON_stringify = (\<lambda>v. ''{}''),
       ToString = (\<lambda>v. ''?''),
       WS_BASE_URL = ''ws://localhost:8000'',
       BASE_URL = ''http://localhost:8000'' \<rparr>"

text \<open>The same platform with a \<open>JSON.stringify\<close> that shows the content of a message.\<close>

definition content_platform :: platform where
  "content_platform =
     example_platform
       \<lparr> JSON_stringify :=
           (\<lambda>v. case get_prop_opt v ''content'' of
                  JStr c \<Rightarrow> ''{content:'' @ c @ ''}''
                | _ \<Rightarrow> ''{}'') \<rparr>"

definition example_world :: "nat world" where
  "example_world =
     new_world
       ((new_WebSocketChatClient ''c1'' ''d1'')
          \<lparr> onDisconnect := Some (\<lambda>n. n + 1), onError := Some (\<lambda>n. n + 10) \<rparr>)
       0 [ACCESS_TOKEN_KEY \<mapsto> ''tok'']"

section \<open>The chat panel's handlers (\<open>components/ChatPanel.tsx\<close>)\<close>

text \<open>
  The state variables of the component that the handlers write, the arguments of the
  calls of the parent's \<open>onSendMessage\<close> in order, and the messages given to
  \<open>toast.error\<close>.
\<close>

record ChatPanel =
  streamingMessage :: string
  isGenerating :: bool
  connected :: bool
  forwarded :: "string list"
  toasts :: "jsval list"

text \<open>The initial values of the \<open>useState\<close> calls.\<close>

definition initial_ChatPanel :: ChatPanel where
  "initial_ChatPanel =
     \<lparr>streamingMessage = [], isGenerating = False, connected = False, forwarded = [], toasts = []\<rparr>"

text \<open>\<open>client.onToken\<close>: \<open>setStreamingMessage(prev => prev + data.token)\<close>\<close>

definition ChatPanel_onToken :: "platform \<Rightarrow> jsval \<Rightarrow> ChatPanel \<Rightarrow> js_error + ChatPanel" where
  "ChatPanel_onToken P data u =
     (case get_prop data ''token'' of
        Inl e \<Rightarrow> Inl e
      | Inr t \<Rightarrow> Inr (u\<lparr>streamingMessage := str_plus P (streamingMessage u) t\<rparr>))"

text \<open>\<open>chunk.page || chunk.page_number\<close>\<close>

definition chunk_page :: "jsval \<Rightarrow> js_error + jsval" where
  "chunk_page chunk =
     (case get_prop chunk ''page'' of
        Inl e \<Rightarrow> Inl e
      | Inr p \<Rightarrow> if truthy p then Inr p else get_prop chunk ''page_number'')"

text \<open>\<open>Array.map\<close> with a callback that may throw.\<close>

fun map_chunks :: "jsval list \<Rightarrow> js_error + jsval list" where
  "map_chunks [] = Inr []"
| "map_chunks (c # cs) =
     (case chunk_page c of
        Inl e \<Rightarrow> Inl e
      | Inr p \<Rightarrow> (case map_chunks cs of Inl e \<Rightarrow> Inl e | Inr ps \<Rightarrow> Inr (p # ps)))"

text \<open>\<open>typeof page === 'number' && page > 0\<close>\<close>

fun is_page :: "jsval \<Rightarrow> bool" where
  "is_page (JNum r) = (0 < r)"
| "is_page v = False"

fun num_of :: "jsval \<Rightarrow> rat" where
  "num_of (JNum r) = r"
| "num_of v = 0"

text \<open>
  \<open>data.chunks?.map(...).filter(...) || []\<close>: no chunks give no references; a value
  that is not an array has no \<open>map\<close> to call.
\<close>

definition pageReferences :: "jsval \<Rightarrow> js_error + rat list" where
  "pageReferences data =
     (case get_prop data ''chunks'' of
        Inl e \<Rightarrow> Inl e
      | Inr chunks \<Rightarrow>
          (case chunks of
             JUndefined \<Rightarrow> Inr []
           | JNull \<Rightarrow> Inr []
           | JArr cs \<Rightarrow>
               (case map_chunks cs of
                  Inl e \<Rightarrow> Inl e
                | Inr ps \<Rightarrow> Inr (map num_of (filter is_page ps)))
           | _ \<Rightarrow> Inl TypeError))"

text \<open>
  \<open>Array.from(new Set(pageReferences)).sort((a, b) => a - b)\<close>: the distinct values in
  ascending order.
\<close>

definition uniquePages :: "rat list \<Rightarrow> rat list" where
  "uniquePages pages = sort (remdups pages)"

text \<open>The \<open>Message\<close> object built for a completed response.\<close>

definition newMessage :: "jsval \<Rightarrow> rat list \<Rightarrow> jsval" where
  "newMessage data pages =
     JObj [ (''id'', get_prop_opt data ''message_id''),
            (''role'', JStr ''ai''),
            (''content'', get_prop_opt data ''content''),
            (''pageReferences'', JArr (map JNum (uniquePages pages))),
            (''timestamp'', JDate (get_prop_opt data ''timestamp'')) ]"

text \<open>
  \<open>client.onResponseComplete\<close>: the page references are computed first, so a
  \<open>TypeError\<close> there leaves the component as it was.
\<close>

definition ChatPanel_onResponseComplete :: "platform \<Rightarrow> jsval \<Rightarrow> ChatPanel \<Rightarrow> js_error + ChatPanel" where
  "ChatPanel_onResponseComplete P data u =
     (case pageReferences data of
        Inl e \<Rightarrow> Inl e
      | Inr pages \<Rightarrow>
          Inr (u\<lparr> forwarded := forwarded u @
                    [''INTERNAL_AI_MESSAGE:'' @ JSON_stringify P (newMessage data pages)],
                  streamingMessage := [],
                  isGenerating := False \<rparr>))"

text \<open>\<open>client.onChatError\<close>\<close>

definition ChatPanel_onChatError :: "jsval \<Rightarrow> ChatPanel \<Rightarrow> js_error + ChatPanel" where
  "ChatPanel_onChatError data u =
     (case get_prop data ''message'' of
        Inl e \<Rightarrow> Inl e
      | Inr m \<Rightarrow> Inr (u\<lparr>toasts := toasts u @ [m], isGenerating := False, streamingMessage := []\<rparr>))"

text \<open>The client as \<open>initializeChat\<close> sets it up before it connects.\<close>

definition ChatPanel_client :: "platform \<Rightarrow> string \<Rightarrow> string \<Rightarrow> ChatPanel WebSocketChatClient" where
  "ChatPanel_client P session_id document_id =
     (new_WebSocketChatClient session_id document_id)
       \<lparr> onConnect := Some (\<lambda>u. u\<lparr>connected := True\<rparr>),
         onDisconnect := Some (\<lambda>u. u\<lparr>connected := False\<rparr>),
         onToken := Some (ChatPanel_onToken P),
         onResponseComplete := Some (ChatPanel_onResponseComplete P),
         onChatError := Some ChatPanel_onChatError \<rparr>"

text \<open>
  Messages as the server sends them, following the interfaces \<open>WSTokenMessage\<close> and
  \<open>WSResponseCompleteMessage\<close>: the declared fields, then any further ones. The
  chunks are declared \<open>any[]\<close>: an array of any values.
\<close>

definition WSTokenMessage :: "string \<Rightarrow> string \<Rightarrow> string \<Rightarrow> (string \<times> jsval) list \<Rightarrow> jsval" where
  "WSTokenMessage message_id token timestamp rest =
     JObj ([ (''type'', JStr ''token''), (''message_id'', JStr message_id),
             (''token'', JStr token), (''timestamp'', JStr timestamp) ] @ rest)"

definition WSResponseCompleteMessage ::
  "string \<Rightarrow> string \<Rightarrow> jsval list \<Rightarrow> string \<Rightarrow> (string \<times> jsval) list \<Rightarrow> jsval" where
  "WSResponseCompleteMessage message_id content chunks timestamp rest =
     JObj ([ (''type'', JStr ''response_complete''), (''message_id'', JStr message_id),
             (''content'', JStr content), (''chunks'', JArr chunks),
             (''timestamp'', JStr timestamp) ] @ rest)"

text \<open>
  A run of parsed messages through \<open>handleMessage\<close>, each inside the \<open>try\<close> of
  \<open>onmessage\<close>.
\<close>

fun handleMessages :: "'u WebSocketChatClient \<Rightarrow> jsval list \<Rightarrow> 'u \<Rightarrow> 'u" where
  "handleMessages c [] u = u"
| "handleMessages c (d # ds) u =
     handleMessages c ds (case handleMessage c d u of Inl e \<Rightarrow> u | Inr u' \<Rightarrow> u')"

text \<open>
  A chunk whose page can be read: any value but \<open>null\<close> and \<open>undefined\<close>. The page
  references of chunks that are all of this kind.
\<close>

fun readable_chunk :: "jsval \<Rightarrow> bool" where
  "readable_chunk JNull = False"
| "readable_chunk JUndefined = False"
| "readable_chunk c = True"

definition pages_of_chunks :: "jsval list \<Rightarrow> rat list" where
  "pages_of_chunks chunks =
     map num_of (filter is_page
       (map (\<lambda>c. js_or (get_prop_opt c ''page'') (get_prop_opt c ''page_number'')) chunks))"

section \<open>The HTTP client (\<open>services/api.ts\<close>)\<close>

text \<open>
  An \<open>axios\<close> request configuration as far as this program uses it: HTTP verb, URL, body,
  the two headers the interceptors write, and the \<open>_retry\<close> mark.
\<close>

record request =
  http_method :: string
  endpoint :: string
  body :: jsval
  Authorization :: "string option"
  ngrok_skip_browser_warning :: bool
  retry :: bool

text \<open>
  How a request ends: a response with a status and a body, no response at all, or a
  failure before anything was sent.
\<close>

datatype http_result = Response nat jsval | NoResponse | SetupError string

text \<open>
  What a call can throw: \<open>ApiException(message, status, errors)\<close> or another
  JavaScript error. The \<open>Error\<close> constructor behind \<open>ApiException\<close> converts the
  message it is given to a string; \<open>status\<close> and \<open>errors\<close> are kept as they are.
\<close>

datatype exn = ApiException string "nat option" jsval | JsError js_error

text \<open>
  The trace of what the client did: requests sent through the client's \<open>axios\<close>
  instance, requests sent with the global \<open>axios\<close>, and calls of \<open>refreshToken\<close>.
\<close>

datatype api_event = Sent request | SentPlain request | RefreshTokenCalled

text \<open>
  The state around the client: \<open>localStorage\<close>, the state of the network and the
  server behind it, and the trace. The server is a parameter
  \<open>srv :: 'n \<Rightarrow> request \<Rightarrow> http_result \<times> 'n\<close>.
\<close>

record 'n api_world =
  storage :: "string \<rightharpoonup> string"
  net :: 'n
  trace :: "api_event list"

definition LOGIN :: string where "LOGIN = ''/api/auth/login/''"
definition REFRESH :: string where "REFRESH = ''/api/auth/refresh/''"

subsection \<open>\<open>TokenManager\<close>\<close>

text \<open>\<open>localStorage.setItem\<close> stores the string conversion of its argument.\<close>

definition to_str :: "platform \<Rightarrow> jsval \<Rightarrow> string" where
  "to_str P v = str_plus P [] v"

definition getAccessToken :: "'n api_world \<Rightarrow> string option" where
  "getAccessToken w = storage w ACCESS_TOKEN_KEY"

definition getRefreshToken :: "'n api_world \<Rightarrow> string option" where
  "getRefreshToken w = storage w REFRESH_TOKEN_KEY"

definition setTokens :: "platform \<Rightarrow> jsval \<Rightarrow> jsval \<Rightarrow> jsval \<Rightarrow> 'n api_world \<Rightarrow> 'n api_world" where
  "setTokens P accessToken refreshToken user w =
     (let st1 = (storage w)(ACCESS_TOKEN_KEY \<mapsto> to_str P accessToken);
          st2 = st1(REFRESH_TOKEN_KEY \<mapsto> to_str P refreshToken);
          st3 = (if truthy user then st2(USER_KEY \<mapsto> JSON_stringify P user) else st2)
      in w\<lparr>storage := st3\<rparr>)"

definition clearTokens :: "'n api_world \<Rightarrow> 'n api_world" where
  "clearTokens w =
     w\<lparr>storage := (storage w)(ACCESS_TOKEN_KEY := None, REFRESH_TOKEN_KEY := None,
                               USER_KEY := None, AUTH_STORE_KEY := None)\<rparr>"

subsection \<open>\<open>ApiClient\<close>\<close>

fun str_includes :: "string \<Rightarrow> string \<Rightarrow> bool" where
  "str_includes [] p = (p = [])"
| "str_includes (c # cs) p = (take (length p) (c # cs) = p \<or> str_includes cs p)"

text \<open>The request interceptor.\<close>

definition request_interceptor :: "platform \<Rightarrow> 'n api_world \<Rightarrow> request \<Rightarrow> request" where
  "request_interceptor P w config =
     (let c1 = (case getAccessToken w of
                  None \<Rightarrow> config
                | Some accessToken \<Rightarrow>
                    if accessToken = [] then config
                    else config\<lparr>Authorization := Some (''Bearer '' @ accessToken)\<rparr>)
      in if str_includes (BASE_URL P) ''ngrok-free.app''
         then c1\<lparr>ngrok_skip_browser_warning := True\<rparr> else c1)"

text \<open>\<open>axios\<close> fulfils the promise for a status from 200 to 299 and rejects it otherwise.\<close>

definition validateStatus :: "nat \<Rightarrow> bool" where
  "validateStatus status = (200 \<le> status \<and> status < 300)"

text \<open>
  \<open>handleError\<close> always throws. The message is \<open>data?.message || data?.detail ||
  `HTTP ${status}`\<close>, whatever value that is, as a string.
\<close>

definition handleError :: "platform \<Rightarrow> http_result \<Rightarrow> exn" where
  "handleError P error =
     (case error of
        Response status data \<Rightarrow>
          ApiException
            (to_str P
               (js_or (get_prop_opt data ''message'')
                  (js_or (get_prop_opt data ''detail'')
                     (JStr (''HTTP '' @ to_str P (JNum (of_nat status)))))))
            (Some status)
            (js_or (get_prop_opt data ''errors'') data)
      | NoResponse \<Rightarrow>
          ApiException ''Network error: No response received'' None JUndefined
      | SetupError message \<Rightarrow>
          ApiException (''Request error: '' @ message) None JUndefined)"

text \<open>The request \<open>axios.post(baseURL + REFRESH, {refresh: refreshToken})\<close>.\<close>

definition refresh_request :: "platform \<Rightarrow> string \<Rightarrow> request" where
  "refresh_request P refreshToken =
     \<lparr> http_method = ''POST'', endpoint = BASE_URL P @ REFRESH,
       body = JObj [(''refresh'', JStr refreshToken)],
       Authorization = None, ngrok_skip_browser_warning = False, retry = False \<rparr>"

text \<open>
  \<open>refreshToken\<close>: the request goes out with the global \<open>axios\<close>, past the
  interceptors; anything thrown inside the \<open>try\<close> gives \<open>false\<close>.
\<close>

definition refreshToken ::
  "platform \<Rightarrow> ('n \<Rightarrow> request \<Rightarrow> http_result \<times> 'n) \<Rightarrow> 'n api_world \<Rightarrow> bool \<times> 'n api_world" where
  "refreshToken P srv w0 =
     (let w = w0\<lparr>trace := trace w0 @ [RefreshTokenCalled]\<rparr>
      in case getRefreshToken w of
           None \<Rightarrow> (False, w)
         | Some refreshToken \<Rightarrow>
             if refreshToken = [] then (False, w)
             else
               let config = refresh_request P refreshToken;
                   (result, n) = srv (net w) config;
                   w1 = w\<lparr>net := n, trace := trace w @ [SentPlain config]\<rparr>
               in case result of
                    Response status data \<Rightarrow>
                      if validateStatus status then
                        (case get_prop data ''refresh'' of
                           Inl e \<Rightarrow> (False, w1)
                         | Inr r \<Rightarrow>
                             (True, setTokens P (get_prop_opt data ''access'')
                                      (js_or r (JStr refreshToken))
                                      (get_prop_opt data ''user'') w1))
                      else (False, w1)
                  | _ \<Rightarrow> (False, w1))"

text \<open>
  A call of the \<open>axios\<close> instance: the request interceptor, the request itself, and the
  response interceptor, whose retry calls the instance again.
\<close>

function axiosInstance ::
  "platform \<Rightarrow> ('n \<Rightarrow> request \<Rightarrow> http_result \<times> 'n) \<Rightarrow> request \<Rightarrow> 'n api_world
     \<Rightarrow> (exn + nat \<times> jsval) \<times> 'n api_world" where
  "axiosInstance P srv config w =
     (let originalRequest = request_interceptor P w config;
          outcome = srv (net w) originalRequest;
          w1 = w\<lparr>net := snd outcome, trace := trace w @ [Sent originalRequest]\<rparr>
      in case fst outcome of
           Response status data \<Rightarrow>
             if validateStatus status then (Inr (status, data), w1)
             else if status = 401 \<and> \<not> retry originalRequest then
               (let refreshed = refreshToken P srv w1
                in if fst refreshed then
                     axiosInstance P srv
                       (originalRequest\<lparr> retry := True,
                          Authorization := Some (''Bearer '' @
                            (case getAccessToken (snd refreshed) of
                               None \<Rightarrow> ''null'' | Some t \<Rightarrow> t)) \<rparr>)
                       (snd refreshed)
                   else
                     (Inl (ApiException ''Authentication failed'' (Some 401) JUndefined),
                      clearTokens (snd refreshed)))
             else (Inl (handleError P (fst outcome)), w1)
         | _ \<Rightarrow> (Inl (handleError P (fst outcome)), w1))"
  by pat_completeness auto
termination
  apply (relation "measure (\<lambda>(P, srv, config, w). if retry config then 0 else 1)")
   apply simp
  apply (auto simp: request_interceptor_def Let_def split: option.splits if_splits)
  done

declare axiosInstance.simps [simp del]

text \<open>\<open>apiClient.post\<close> returns the body of the response.\<close>

definition post ::
  "platform \<Rightarrow> ('n \<Rightarrow> request \<Rightarrow> http_result \<times> 'n) \<Rightarrow> string \<Rightarrow> jsval \<Rightarrow> 'n api_world
     \<Rightarrow> (exn + jsval) \<times> 'n api_world" where
  "post P srv ep data w =
     (case axiosInstance P srv
             \<lparr> http_method = ''POST'', endpoint = ep, body = data, Authorization = None,
               ngrok_skip_browser_warning = False, retry = False \<rparr> w of
        (Inl e, w') \<Rightarrow> (Inl e, w')
      | (Inr (status, d), w') \<Rightarrow> (Inr d, w'))"

section \<open>Login (\<open>services/auth.ts\<close>)\<close>

text \<open>
  The \<open>catch\<close> block of \<open>AuthService.login\<close>: the tokens are cleared, an
  \<open>ApiException\<close> is thrown again and any other error is replaced by one.
\<close>

definition login_catch :: "exn \<Rightarrow> 'n api_world \<Rightarrow> (exn + jsval) \<times> 'n api_world" where
  "login_catch error w =
     (case error of
        ApiException m st errs \<Rightarrow> (Inl error, clearTokens w)
      | JsError e \<Rightarrow>
          (Inl (ApiException ''Login failed. Please try again.'' None JUndefined),
           clearTokens w))"

definition login ::
  "platform \<Rightarrow> ('n \<Rightarrow> request \<Rightarrow> http_result \<times> 'n) \<Rightarrow> jsval \<Rightarrow> 'n api_world
     \<Rightarrow> (exn + jsval) \<times> 'n api_world" where
  "login P srv credentials w =
     (case post P srv LOGIN credentials w of
        (Inl e, w1) \<Rightarrow> login_catch e w1
      | (Inr response, w1) \<Rightarrow>
          (case get_prop response ''access'' of
             Inl e \<Rightarrow> login_catch (JsError e) w1
           | Inr access \<Rightarrow>
               if \<not> truthy access \<or> \<not> truthy (get_prop_opt response ''refresh'')
                    \<or> \<not> truthy (get_prop_opt response ''user'')
               then login_catch
                      (ApiException ''Invalid server response: missing required fields''
                         None JUndefined) w1
               else (Inr response,
                     setTokens P access (get_prop_opt response ''refresh'')
                       (get_prop_opt response ''user'') w1)))"

text \<open>
  A server to exercise the theorems below: it counts the requests it has seen, issues the
  access token \<open>new\<close> on a refresh, answers the login request with a token pair and,
  when the request has a body, with that body as the user record, and accepts any other
  request that carries the new token.
\<close>

definition example_server :: "nat \<Rightarrow> request \<Rightarrow> http_result \<times> nat" where
  "example_server n r =
     (if endpoint r = ''http://localhost:8000/api/auth/refresh/''
      then (Response 200 (JObj [(''access'', JStr ''new'')]), n + 1)
      else if endpoint r = ''/api/auth/login/''
      then (Response 200 (JObj ([(''access'', JStr ''a1''), (''refresh'', JStr ''r1'')]
                                 @ (if truthy (body r) then [(''user'', body r)] else []))),
            n + 1)
      else if Authorization r = Some ''Bearer new''
      then (Response 200 (JStr ''ok''), n + 1)
      else (Response 401 JNull, n + 1))"

definition example_request :: request where
  "example_request =
     \<lparr> http_method = ''GET'', endpoint = ''/api/documents/'', body = JUndefined,
       Authorization = None, ngrok_skip_browser_warning = False, retry = False \<rparr>"

definition example_api_world :: "(string \<rightharpoonup> string) \<Rightarrow> nat api_world" where
  "example_api_world store = \<lparr>storage = store, net = 0, trace = []\<rparr>"

section \<open>Properties of the streaming chat client\<close>

subsection \<open>What each operation leaves alone\<close>

lemma update_socket_fields [simp]:
  "client (update_socket i f w) = client w"
  "timers (update_socket i f w) = timers w"
  "ui (update_socket i f w) = ui w"
  "localStorage (update_socket i f w) = localStorage w"
  by (simp_all add: update_socket_def)

lemma connect_flag:
  "connect P w = Inr w' \<Longrightarrow> isIntentionallyClosed (client w') = isIntentionallyClosed (client w)"
  by (auto simp: connect_def Let_def split: option.splits if_splits)


lemma connect_counter:
  "connect P w = Inr w' \<Longrightarrow> reconnectAttempts (client w') = reconnectAttempts (client w)"
  by (auto simp: connect_def Let_def split: option.splits if_splits)

lemma sendMessage_client:
  "sendMessage P m opts w = Inr w' \<Longrightarrow> client w' = client w \<and> timers w' = timers w"
  by (auto simp: sendMessage_def ws_send_def split: option.splits if_splits)

lemma updateSettings_client:
  "updateSettings P st w = Inr w' \<Longrightarrow> client w' = client w \<and> timers w' = timers w"
  by (auto simp: updateSettings_def ws_send_def split: option.splits if_splits)

lemma onmessage_client:
  "onmessage P w d = Inr w' \<Longrightarrow> client w' = client w \<and> timers w' = timers w"
  by (auto simp: onmessage_def split: option.splits sum.splits)

lemma onopen_flag:
  "isIntentionallyClosed (client (onopen i w)) = isIntentionallyClosed (client w)"
  by (simp add: onopen_def)

lemma onerror_client: "client (onerror i w) = client w"
  by (simp add: onerror_def)

lemma onclose_client: "client (onclose code reason w) = client w"
  by (simp add: onclose_def Let_def)

lemma reconnect_callback_flag:
  "isIntentionallyClosed (client (reconnect_callback P w)) = isIntentionallyClosed (client w)"
  by (auto simp: reconnect_callback_def Let_def dest: connect_flag split: sum.splits)

lemma reconnect_callback_counter:
  "reconnectAttempts (client (reconnect_callback P w)) = reconnectAttempts (client w) + 1"
  by (auto simp: reconnect_callback_def Let_def dest: connect_counter split: sum.splits)

text \<open>Every event but a call of \<open>disconnect()\<close> leaves the intentional-close flag as it is.\<close>

lemma step_flag:
  "e \<noteq> CallDisconnect \<Longrightarrow>
   isIntentionallyClosed (client (step P e w)) = isIntentionallyClosed (client w)"
  by (cases e)
     (auto simp: onopen_flag onerror_client onclose_client reconnect_callback_flag
           dest: connect_flag sendMessage_client updateSettings_client onmessage_client
           split: sum.splits)

lemma disconnect_flag: "isIntentionallyClosed (client (disconnect w))"
  by (simp add: disconnect_def Let_def split: option.splits)

lemma step_keeps_flag:
  "isIntentionallyClosed (client w) \<Longrightarrow> isIntentionallyClosed (client (step P e w))"
  by (cases "e = CallDisconnect") (simp_all add: disconnect_flag step_flag)

lemma run_keeps_flag:
  "isIntentionallyClosed (client w) \<Longrightarrow> isIntentionallyClosed (client (run P es w))"
  unfolding run_def
  by (induction es arbitrary: w) (simp_all add: step_keeps_flag)

text \<open>The attempt budget and the base delay are never written after construction.\<close>

lemma step_keeps_policy:
  "maxReconnectAttempts (client (step P e w)) = maxReconnectAttempts (client w)
   \<and> reconnectInterval (client (step P e w)) = reconnectInterval (client w)"
  by (cases e)
     (auto simp: connect_def Let_def disconnect_def onopen_def onerror_def onclose_def
                 reconnect_callback_def
           dest: sendMessage_client updateSettings_client onmessage_client
           split: sum.splits option.splits if_splits)

lemma run_keeps_policy:
  "maxReconnectAttempts (client (run P es w)) = maxReconnectAttempts (client w)
   \<and> reconnectInterval (client (run P es w)) = reconnectInterval (client w)"
  unfolding run_def
  by (induction es arbitrary: w) (simp_all add: step_keeps_policy del: step.simps)

lemma onclose_suppressed:
  "isIntentionallyClosed (client w) \<Longrightarrow> timers (onclose code reason w) = timers w"
  by (simp add: onclose_def Let_def)

lemmas example_defs =
  example_world_def example_platform_def new_world_def new_WebSocketChatClient_def
  connect_def ACCESS_TOKEN_KEY_def Let_def ready_def socket_at_def update_socket_def onopen_def
  onclose_def onerror_def call0_def settle_def run_def disconnect_def ws_close_def

subsection \<open>Reconnection\<close>

text \<open>
  Claim C2, as the code has it. An unexpected close (the intentional-close flag is false)
  with fewer than 5 reconnection attempts counted sets exactly one timer. Its delay is the
  number of attempts counted so far times the base delay of 1000 ms; the timer's callback
  then raises the counter by one. So the attempt with ordinal \<open>n\<close> (the counter when it
  runs) is scheduled after \<open>(n - 1) \<times> 1000\<close> ms: the first one at once, the fifth after
  4000 ms.
\<close>

theorem unexpected_close_schedules_one_reconnect:
  assumes "\<not> isIntentionallyClosed (client w)"
    and "reconnectAttempts (client w) < 5"
    and "maxReconnectAttempts (client w) = 5"
    and "reconnectInterval (client w) = 1000"
  shows "timers (onclose code reason w) = timers w @ [1000 * reconnectAttempts (client w)]
       \<and> reconnectAttempts (client (reconnect_callback P (onclose code reason w)))
           = reconnectAttempts (client w) + 1"
  using assms by (simp add: onclose_def Let_def reconnect_callback_counter)

theorem unexpected_close_schedules_one_reconnect_witness:
  "timers (onclose 1006 [] example_world) = [0]
   \<and> reconnectAttempts
        (client (reconnect_callback example_platform (onclose 1006 [] example_world))) = 1"
proof -
  have "\<not> isIntentionallyClosed (client example_world)"
    and "reconnectAttempts (client example_world) < 5"
    and "maxReconnectAttempts (client example_world) = 5"
    and "reconnectInterval (client example_world) = 1000"
    and "timers example_world = []" and "reconnectAttempts (client example_world) = 0"
    by (simp_all add: example_defs)
  with unexpected_close_schedules_one_reconnect [of example_world 1006 "[]" example_platform]
  show ?thesis by simp
qed

text \<open>
  Claim C2 as stated fails: a client connects, its socket opens and then closes with code
  1006. No attempt has been counted, the flag is false, and the first reconnection (the
  counter reads 1 when it runs) is scheduled with delay 0, not \<open>1 \<times> 1000\<close>.
\<close>

theorem first_reconnect_delay_counterexample:
  "\<not> isIntentionallyClosed
       (client (run example_platform [CallConnect, SocketOpen 0] example_world))
   \<and> reconnectAttempts
        (client (run example_platform [CallConnect, SocketOpen 0] example_world)) < 5
   \<and> timers (run example_platform [CallConnect, SocketOpen 0] example_world) = []
   \<and> timers (run example_platform [CallConnect, SocketOpen 0, SocketClose 0 1006 []]
        example_world) = [0]
   \<and> reconnectAttempts
        (client (run example_platform
           [CallConnect, SocketOpen 0, SocketClose 0 1006 [], TimerFires 0] example_world)) = 1
   \<and> (0::nat) \<noteq> 1 * 1000"
  by (simp add: example_defs reconnect_callback_def remove_nth_def)

text \<open>
  After \<open>disconnect()\<close>, whatever happens next (any sequence of calls, socket events and
  timers), a close event with any code and reason on any socket sets no timer: the pending
  timers after the \<open>onclose\<close> handler are those before it.
\<close>

lemma close_after_disconnect_sets_no_timer:
  "timers (onclose code reason (run P es (disconnect w))) = timers (run P es (disconnect w))
   \<and> timers (step P (SocketClose i code reason) (run P es (disconnect w)))
       = timers (run P es (disconnect w))"
  by (simp add: onclose_suppressed run_keeps_flag disconnect_flag)

text \<open>
  Claim C3 does not hold of the code: the client can reconnect after \<open>disconnect()\<close>.
  A client connects, its socket opens and then closes with code 1006, which sets the
  reconnection timer. The caller then calls \<open>disconnect()\<close>: the flag is set, but the
  pending timer is not cleared, and its callback does not test the flag. When the timer
  fires, the callback counts an attempt and calls \<open>connect()\<close>; a second socket is
  created, and once it opens the client is connected again, with the intentional-close
  flag still set.
\<close>

theorem pending_timer_reconnects_after_disconnect:
  "timers (run example_platform
      [CallConnect, SocketOpen 0, SocketClose 0 1006 [], CallDisconnect] example_world) = [0]
   \<and> isIntentionallyClosed (client (run example_platform
        [CallConnect, SocketOpen 0, SocketClose 0 1006 [], CallDisconnect] example_world))
   \<and> ws (client (run example_platform
        [CallConnect, SocketOpen 0, SocketClose 0 1006 [], CallDisconnect] example_world)) = None
   \<and> ws (client (run example_platform
        [CallConnect, SocketOpen 0, SocketClose 0 1006 [], CallDisconnect, TimerFires 0]
        example_world)) = Some 1
   \<and> reconnectAttempts (client (run example_platform
        [CallConnect, SocketOpen 0, SocketClose 0 1006 [], CallDisconnect, TimerFires 0]
        example_world)) = 1
   \<and> isConnected (run example_platform
        [CallConnect, SocketOpen 0, SocketClose 0 1006 [], CallDisconnect, TimerFires 0,
         SocketOpen 1] example_world)
   \<and> isIntentionallyClosed (client (run example_platform
        [CallConnect, SocketOpen 0, SocketClose 0 1006 [], CallDisconnect, TimerFires 0,
         SocketOpen 1] example_world))"
  by (simp add: example_defs reconnect_callback_def remove_nth_def isConnected_def)

text \<open>
  Claim C7. The \<open>onerror\<close> handler changes no field of the client, so the
  intentional-close flag is what it was; if an \<open>onError\<close> callback is set it is applied
  to the caller's state; an unexpected close after the error sets the reconnection timer
  as it would have without the error; and no event other than a call of \<open>disconnect()\<close>
  changes the flag.
\<close>

theorem network_error_keeps_reconnection:
  "client (onerror i w) = client w
   \<and> (\<forall>f. onError (client w) = Some f \<longrightarrow> ui (onerror i w) = f (ui w))
   \<and> (\<not> isIntentionallyClosed (client w)
        \<and> reconnectAttempts (client w) < maxReconnectAttempts (client w)
      \<longrightarrow> timers (onclose code reason (onerror i w))
            = timers w @ [reconnectInterval (client w) * reconnectAttempts (client w)])
   \<and> (e \<noteq> CallDisconnect
      \<longrightarrow> isIntentionallyClosed (client (step P e w)) = isIntentionallyClosed (client w))"
  by (simp add: step_flag onerror_client) (simp add: onerror_def onclose_def Let_def call0_def)

theorem network_error_keeps_reconnection_witness:
  "isIntentionallyClosed (client (onerror 0 example_world)) = False
   \<and> ui (onerror 0 example_world) = 10
   \<and> timers (onclose 1006 [] (onerror 0 example_world)) = [0]
   \<and> \<not> isIntentionallyClosed (client (step example_platform (SocketError 0)
         (step example_platform CallConnect example_world)))"
proof -
  have h: "onError (client example_world) = Some (\<lambda>n. n + 10)" "ui example_world = 0"
    "\<not> isIntentionallyClosed (client example_world)"
    "reconnectAttempts (client example_world) < maxReconnectAttempts (client example_world)"
    "timers example_world = []" "reconnectAttempts (client example_world) = 0"
    "\<not> isIntentionallyClosed (client (step example_platform CallConnect example_world))"
    by (simp_all add: example_defs)
  from network_error_keeps_reconnection
         [of 0 example_world 1006 "[]" "SocketError 0" example_platform]
       network_error_keeps_reconnection
         [of 0 "step example_platform CallConnect example_world" 1006 "[]" "SocketError 0"
             example_platform]
       h
  show ?thesis by simp
qed



subsection \<open>Sending\<close>

text \<open>
  Claim C4. When \<open>this.ws\<close> is \<open>null\<close>, or the socket it refers to is not in state
  \<open>OPEN\<close>, \<open>sendMessage\<close> and \<open>updateSettings\<close> throw
  \<open>Error('WebSocket is not connected')\<close>, and the call leaves the whole state as it
  was: no payload is added to what any socket has sent and nothing is kept for later.
\<close>

theorem send_on_closed_channel_throws:
  assumes "ws (client w) = None
           \<or> (\<exists>i. ws (client w) = Some i \<and> ready w i \<noteq> Some OPEN)"
  shows "sendMessage P message opts w = Inl (Error ''WebSocket is not connected'')
       \<and> updateSettings P settings w = Inl (Error ''WebSocket is not connected'')
       \<and> step P (CallSendMessage message opts) w = w
       \<and> step P (CallUpdateSettings settings) w = w"
proof -
  have "\<not> isConnected w"
    using assms by (auto simp: isConnected_def ready_def split: option.splits)
  then show ?thesis
    by (simp add: sendMessage_def updateSettings_def)
qed

theorem send_on_closed_channel_throws_witness:
  "sendMessage example_platform ''hi''
     \<lparr>model = JUndefined, temperature = JUndefined, max_tokens = JUndefined\<rparr> example_world
     = Inl (Error ''WebSocket is not connected'')
   \<and> sockets (step example_platform
        (CallSendMessage ''hi''
           \<lparr>model = JUndefined, temperature = JUndefined, max_tokens = JUndefined\<rparr>)
        (step example_platform CallConnect example_world))
      = sockets (step example_platform CallConnect example_world)"
proof -
  have a: "ws (client example_world) = None"
    by (simp add: example_defs)
  let ?w = "step example_platform CallConnect example_world"
  have b: "ws (client ?w) = Some 0 \<and> ready ?w 0 \<noteq> Some OPEN"
    by (simp add: example_defs)
  from send_on_closed_channel_throws [of example_world example_platform "''hi''" _ "[]"] a
       send_on_closed_channel_throws [of ?w example_platform "''hi''" _ "[]"] b
  show ?thesis by simp
qed

text \<open>
  Claim C9. On an open channel \<open>sendMessage\<close> hands one payload to the socket: the JSON
  text of an object of type \<open>chat_message\<close> with the given text, where each of
  \<open>model\<close>, \<open>temperature\<close> and \<open>max_tokens\<close> is the option when that is truthy and
  \<open>'standard'\<close>, \<open>0.7\<close>, \<open>2048\<close> otherwise. An explicit temperature of 0 or token
  budget of 0 is falsy, so the message built is the one for the defaults.
\<close>

theorem sendMessage_payload_defaults:
  assumes "ws (client w) = Some i" and "ready w i = Some OPEN"
  shows "sendMessage P message opts w =
           Inr (update_socket i (\<lambda>s. s\<lparr>sent := sent s @
             [JSON_stringify P (JObj
                [ (''type'', JStr ''chat_message''),
                  (''message'', JStr message),
                  (''model'', if truthy (model opts) then model opts else JStr ''standard''),
                  (''temperature'',
                     if truthy (temperature opts) then temperature opts else JNum (7 / 10)),
                  (''max_tokens'',
                     if truthy (max_tokens opts) then max_tokens opts else JNum 2048) ])]\<rparr>) w)
       \<and> WSChatMessage message (opts\<lparr>temperature := JNum 0, max_tokens := JNum 0\<rparr>)
           = WSChatMessage message (opts\<lparr>temperature := JNum (7 / 10), max_tokens := JNum 2048\<rparr>)"
proof -
  have "isConnected w"
    using assms by (auto simp: isConnected_def ready_def split: option.splits)
  then show ?thesis
    using assms(1) by (simp add: sendMessage_def ws_send_def WSChatMessage_def js_or_def)
qed

theorem sendMessage_payload_defaults_witness:
  "map sent (sockets (step example_platform
      (CallSendMessage ''hi'' \<lparr>model = JUndefined, temperature = JNum 0, max_tokens = JNum 0\<rparr>)
      (run example_platform [CallConnect, SocketOpen 0] example_world)))
     = [[''{}'']]
   \<and> WSChatMessage ''hi'' \<lparr>model = JUndefined, temperature = JNum 0, max_tokens = JNum 0\<rparr>
       = JObj [ (''type'', JStr ''chat_message''), (''message'', JStr ''hi''),
                (''model'', JStr ''standard''), (''temperature'', JNum (7 / 10)),
                (''max_tokens'', JNum 2048) ]"
proof -
  let ?w = "run example_platform [CallConnect, SocketOpen 0] example_world"
  let ?o = "\<lparr>model = JUndefined, temperature = JNum 0, max_tokens = JNum 0\<rparr>"
  have h: "ws (client ?w) = Some 0" "ready ?w 0 = Some OPEN"
    by (simp_all add: example_defs)
  have s: "sockets ?w = [\<lparr>url = ''ws://localhost:8000/ws/chat/c1/document/d1/?token=tok'',
                          readyState = OPEN, sent = [], promise = Resolved\<rparr>]"
    by (simp add: example_defs)
  have j: "JSON_stringify example_platform v = ''{}''" for v
    by (simp add: example_platform_def)
  have "sockets (step example_platform (CallSendMessage ''hi'' ?o) ?w)
          = (sockets ?w)[0 := (sockets ?w ! 0)\<lparr>sent := sent (sockets ?w ! 0) @ [''{}'']\<rparr>]"
    using sendMessage_payload_defaults [OF h, of example_platform "''hi''" ?o]
    by (simp add: update_socket_def j s)
  then show ?thesis
    by (simp add: s WSChatMessage_def js_or_def)
qed

subsection \<open>Receiving\<close>

text \<open>
  Claim C5. When \<open>JSON.parse\<close> throws on the data of an incoming payload, \<open>onmessage\<close>
  returns normally and the state after it is the state before it. That state holds the
  client's fields (reconnect counter, intentional-close flag, socket reference) and the
  state of the caller on which the callbacks act; the client and its callbacks are
  arbitrary here, so no callback has run.
\<close>

theorem malformed_payload_is_dropped:
  assumes "JSON_parse P event_data = None"
  shows "onmessage P w event_data = Inr w
       \<and> step P (SocketMessage i event_data) w = w"
  using assms by (simp add: onmessage_def)

theorem malformed_payload_is_dropped_witness:
  "onmessage example_platform example_world ''{oops'' = Inr example_world
   \<and> step example_platform (SocketMessage 0 ''{oops'')
       (run example_platform [CallConnect, SocketOpen 0] example_world)
     = run example_platform [CallConnect, SocketOpen 0] example_world"
proof -
  have "JSON_parse example_platform ''{oops'' = None"
    by (simp add: example_platform_def)
  from malformed_payload_is_dropped [OF this, of example_world 0]
       malformed_payload_is_dropped
         [OF this, of "run example_platform [CallConnect, SocketOpen 0] example_world" 0]
  show ?thesis by simp
qed

section \<open>Properties of the chat panel\<close>

lemma handleMessage_token:
  "handleMessage (ChatPanel_client P sid did) (WSTokenMessage mid tok ts rest) u
     = Inr (u\<lparr>streamingMessage := streamingMessage u @ tok\<rparr>)"
  by (simp add: handleMessage_def WSTokenMessage_def ChatPanel_client_def call1_def
      ChatPanel_onToken_def str_plus_def)

lemma handleMessages_tokens:
  "handleMessages (ChatPanel_client P sid did)
     (map (\<lambda>(mid, tok, ts, rest). WSTokenMessage mid tok ts rest) toks) u
   = u\<lparr>streamingMessage := streamingMessage u @ concat (map (\<lambda>(mid, tok, ts, rest). tok) toks)\<rparr>"
proof (induction toks arbitrary: u)
  case Nil
  show ?case by simp
next
  case (Cons t toks)
  obtain mid tok ts rest where t: "t = (mid, tok, ts, rest)"
    by (cases t) auto
  show ?case
    by (simp add: t handleMessage_token Cons.IH)
qed

lemma handleMessages_append:
  "handleMessages c (ds @ [d]) u
     = (case handleMessage c d (handleMessages c ds u) of
          Inl e \<Rightarrow> handleMessages c ds u | Inr u' \<Rightarrow> u')"
  by (induction ds arbitrary: u) (simp_all split: sum.splits)

lemma chunk_page_readable:
  "readable_chunk c \<Longrightarrow>
   chunk_page c = Inr (js_or (get_prop_opt c ''page'') (get_prop_opt c ''page_number''))"
  by (cases c) (simp_all add: chunk_page_def js_or_def)

lemma map_chunks_readable:
  "list_all readable_chunk chunks \<Longrightarrow>
   map_chunks chunks
     = Inr (map (\<lambda>c. js_or (get_prop_opt c ''page'') (get_prop_opt c ''page_number'')) chunks)"
  by (induction chunks) (simp_all add: chunk_page_readable)

lemma pageReferences_complete:
  "list_all readable_chunk chunks \<Longrightarrow>
   pageReferences (WSResponseCompleteMessage mid content chunks ts rest)
     = Inr (pages_of_chunks chunks)"
  by (simp add: pageReferences_def WSResponseCompleteMessage_def map_chunks_readable
      pages_of_chunks_def)

lemma handleMessage_complete:
  assumes "list_all readable_chunk chunks"
  shows "handleMessage (ChatPanel_client P sid did)
     (WSResponseCompleteMessage mid content chunks ts rest) u
     = Inr (u\<lparr> forwarded := forwarded u @
                 [''INTERNAL_AI_MESSAGE:'' @ JSON_stringify P (JObj
                    [ (''id'', JStr mid), (''role'', JStr ''ai''), (''content'', JStr content),
                      (''pageReferences'',
                         JArr (map JNum (sort (remdups (pages_of_chunks chunks))))),
                      (''timestamp'', JDate (JStr ts)) ])],
               streamingMessage := [], isGenerating := False \<rparr>)"
proof -
  have t: "get_prop (WSResponseCompleteMessage mid content chunks ts rest) ''type''
            = Inr (JStr ''response_complete'')"
    by (simp add: WSResponseCompleteMessage_def)
  have n: "newMessage (WSResponseCompleteMessage mid content chunks ts rest) pages
           = JObj [ (''id'', JStr mid), (''role'', JStr ''ai''), (''content'', JStr content),
                    (''pageReferences'', JArr (map JNum (sort (remdups pages)))),
                    (''timestamp'', JDate (JStr ts)) ]" for pages
    by (simp add: newMessage_def WSResponseCompleteMessage_def uniquePages_def)
  show ?thesis
    by (simp add: handleMessage_def t ChatPanel_client_def call1_def
        ChatPanel_onResponseComplete_def pageReferences_complete [OF assms] n)
qed

text \<open>
  Claim C1, as the code has it. The client carries the panel's handlers. After any
  sequence of \<open>token\<close> messages the buffer \<open>streamingMessage\<close> is what it was before,
  followed by the token payloads in the order received; from the empty buffer of a fresh
  panel it is their concatenation. When a \<open>response_complete\<close> message follows in whose
  \<open>chunks\<close> array no entry is \<open>null\<close> or \<open>undefined\<close>, the buffer is empty
  afterwards, and exactly one message has been handed to the parent: the one whose
  \<open>content\<close> is the \<open>content\<close> field of the completion message, whatever the tokens
  were.
\<close>

theorem token_stream_reassembly:
  assumes "list_all readable_chunk chunks"
  shows "streamingMessage
     (handleMessages (ChatPanel_client P sid did)
        (map (\<lambda>(mid, tok, ts, rest). WSTokenMessage mid tok ts rest) toks) u)
     = streamingMessage u @ concat (map (\<lambda>(mid, tok, ts, rest). tok) toks)
   \<and> streamingMessage
       (handleMessages (ChatPanel_client P sid did)
          (map (\<lambda>(mid, tok, ts, rest). WSTokenMessage mid tok ts rest) toks) initial_ChatPanel)
       = concat (map (\<lambda>(mid, tok, ts, rest). tok) toks)
   \<and> streamingMessage
       (handleMessages (ChatPanel_client P sid did)
          (map (\<lambda>(mid, tok, ts, rest). WSTokenMessage mid tok ts rest) toks
             @ [WSResponseCompleteMessage mid content chunks ts rest]) u)
       = []
   \<and> forwarded
       (handleMessages (ChatPanel_client P sid did)
          (map (\<lambda>(mid, tok, ts, rest). WSTokenMessage mid tok ts rest) toks
             @ [WSResponseCompleteMessage mid content chunks ts rest]) u)
       = forwarded u @
           [''INTERNAL_AI_MESSAGE:'' @ JSON_stringify P (JObj
              [ (''id'', JStr mid), (''role'', JStr ''ai''), (''content'', JStr content),
                (''pageReferences'', JArr (map JNum (sort (remdups (pages_of_chunks chunks))))),
                (''timestamp'', JDate (JStr ts)) ])]"
  by (simp add: handleMessages_append handleMessages_tokens handleMessage_complete [OF assms]
      initial_ChatPanel_def)

theorem token_stream_reassembly_witness:
  "streamingMessage
     (handleMessages (ChatPanel_client content_platform ''s1'' ''d1'')
        [WSTokenMessage ''m1'' ''Hel'' ''t1'' [], WSTokenMessage ''m1'' ''lo'' ''t2'' []]
        initial_ChatPanel)
     = ''Hello''
   \<and> forwarded
       (handleMessages (ChatPanel_client content_platform ''s1'' ''d1'')
          [WSTokenMessage ''m1'' ''Hel'' ''t1'' [], WSTokenMessage ''m1'' ''lo'' ''t2'' [],
           WSResponseCompleteMessage ''m1'' ''Hello [p. 2]''
             [JObj [(''page'', JNum 2)], JNum 7, JObj [(''page_number'', JNum 1)]] ''t3'' []]
          initial_ChatPanel)
       = [''INTERNAL_AI_MESSAGE:{content:Hello [p. 2]}'']
   \<and> streamingMessage
       (handleMessages (ChatPanel_client content_platform ''s1'' ''d1'')
          [WSTokenMessage ''m1'' ''Hel'' ''t1'' [], WSTokenMessage ''m1'' ''lo'' ''t2'' [],
           WSResponseCompleteMessage ''m1'' ''Hello [p. 2]''
             [JObj [(''page'', JNum 2)], JNum 7, JObj [(''page_number'', JNum 1)]] ''t3'' []]
          initial_ChatPanel)
       = []"
proof -
  have h: "list_all readable_chunk
             [JObj [(''page'', JNum 2)], JNum 7, JObj [(''page_number'', JNum 1)]]"
    by simp
  from token_stream_reassembly
          [OF h, of content_platform "''s1''" "''d1''"
              "[(''m1'', ''Hel'', ''t1'', []), (''m1'', ''lo'', ''t2'', [])]" initial_ChatPanel
              "''m1''" "''Hello [p. 2]''" "''t3''" "[]"]
  show ?thesis
    by (simp add: initial_ChatPanel_def content_platform_def example_platform_def)
qed

text \<open>
  Claim C1 as stated fails: two tokens arrive on a fresh panel and then a
  \<open>response_complete\<close> message whose \<open>chunks\<close> array holds \<open>null\<close>. Reading the
  page of that chunk throws before the buffer is reset, the \<open>try\<close> of \<open>onmessage\<close>
  drops the message, and afterwards the buffer still holds the tokens, nothing has been
  handed to the parent and the panel is still generating.
\<close>

theorem completion_with_null_chunk_counterexample:
  "streamingMessage
     (handleMessages (ChatPanel_client content_platform ''s1'' ''d1'')
        [WSTokenMessage ''m1'' ''Hel'' ''t1'' [], WSTokenMessage ''m1'' ''lo'' ''t2'' [],
         WSResponseCompleteMessage ''m1'' ''Hello [p. 2]'' [JNull] ''t3'' []]
        (initial_ChatPanel\<lparr>isGenerating := True\<rparr>))
     = ''Hello''
   \<and> ''Hello'' \<noteq> ([] :: string)
   \<and> forwarded
       (handleMessages (ChatPanel_client content_platform ''s1'' ''d1'')
          [WSTokenMessage ''m1'' ''Hel'' ''t1'' [], WSTokenMessage ''m1'' ''lo'' ''t2'' [],
           WSResponseCompleteMessage ''m1'' ''Hello [p. 2]'' [JNull] ''t3'' []]
          (initial_ChatPanel\<lparr>isGenerating := True\<rparr>))
       = []
   \<and> isGenerating
       (handleMessages (ChatPanel_client content_platform ''s1'' ''d1'')
          [WSTokenMessage ''m1'' ''Hel'' ''t1'' [], WSTokenMessage ''m1'' ''lo'' ''t2'' [],
           WSResponseCompleteMessage ''m1'' ''Hello [p. 2]'' [JNull] ''t3'' []]
          (initial_ChatPanel\<lparr>isGenerating := True\<rparr>))"
  by (simp add: handleMessage_def ChatPanel_client_def call1_def new_WebSocketChatClient_def
      WSTokenMessage_def WSResponseCompleteMessage_def ChatPanel_onToken_def str_plus_def
      ChatPanel_onResponseComplete_def pageReferences_def chunk_page_def initial_ChatPanel_def)

text \<open>
  How the messages reach the handlers: a payload that parses is handled inside the
  \<open>try\<close> of \<open>onmessage\<close>, which is one step of \<open>handleMessages\<close>.
\<close>

lemma onmessage_parsed:
  "JSON_parse P event_data = Some d \<Longrightarrow>
   onmessage P w event_data = Inr (w\<lparr>ui := handleMessages (client w) [d] (ui w)\<rparr>)"
  by (simp add: onmessage_def split: sum.splits)

section \<open>Properties of the HTTP client and of login\<close>

lemma request_interceptor_retry [simp]:
  "retry (request_interceptor P w config) = retry config"
  by (simp add: request_interceptor_def Let_def split: option.splits)

lemma clearTokens_storage:
  "storage (clearTokens w) ACCESS_TOKEN_KEY = None"
  "storage (clearTokens w) REFRESH_TOKEN_KEY = None"
  "storage (clearTokens w) USER_KEY = None"
  "storage (clearTokens w) AUTH_STORE_KEY = None"
  by (simp_all add: clearTokens_def ACCESS_TOKEN_KEY_def REFRESH_TOKEN_KEY_def USER_KEY_def
      AUTH_STORE_KEY_def)

lemma clearTokens_trace [simp]: "trace (clearTokens w) = trace w"
  by (simp add: clearTokens_def)

lemma setTokens_trace [simp]: "trace (setTokens P a r u w) = trace w"
  by (simp add: setTokens_def Let_def)

lemma setTokens_access:
  "storage (setTokens P a r u w) ACCESS_TOKEN_KEY = Some (to_str P a)"
  by (simp add: setTokens_def Let_def ACCESS_TOKEN_KEY_def REFRESH_TOKEN_KEY_def USER_KEY_def)

lemma setTokens_refresh:
  "storage (setTokens P a r u w) REFRESH_TOKEN_KEY = Some (to_str P r)"
  by (simp add: setTokens_def Let_def ACCESS_TOKEN_KEY_def REFRESH_TOKEN_KEY_def USER_KEY_def)

lemma setTokens_user:
  "truthy u \<Longrightarrow> storage (setTokens P a r u w) USER_KEY = Some (JSON_stringify P u)"
  by (simp add: setTokens_def Let_def ACCESS_TOKEN_KEY_def REFRESH_TOKEN_KEY_def USER_KEY_def)

text \<open>What a call of \<open>refreshToken\<close> adds to the trace.\<close>

lemma refreshToken_trace:
  "trace (snd (refreshToken P srv w)) =
     trace w @ [RefreshTokenCalled] @
       (case getRefreshToken w of
          None \<Rightarrow> []
        | Some rt \<Rightarrow> if rt = [] then [] else [SentPlain (refresh_request P rt)])"
  by (auto simp: refreshToken_def Let_def getRefreshToken_def
           split: option.splits prod.splits http_result.splits sum.splits)

lemma refreshToken_success_access:
  "fst (refreshToken P srv w) \<Longrightarrow> \<exists>tok. getAccessToken (snd (refreshToken P srv w)) = Some tok"
  by (auto simp: refreshToken_def Let_def getRefreshToken_def getAccessToken_def setTokens_access
           split: option.splits prod.splits http_result.splits sum.splits if_splits)

text \<open>A request that carries the retry mark is sent once and never refreshed.\<close>

lemma axiosInstance_retried:
  assumes "retry config"
  shows "axiosInstance P srv config w =
           (let req = request_interceptor P w config;
                outcome = srv (net w) req;
                w1 = w\<lparr>net := snd outcome, trace := trace w @ [Sent req]\<rparr>
            in case fst outcome of
                 Response status data \<Rightarrow>
                   if validateStatus status then (Inr (status, data), w1)
                   else (Inl (handleError P (fst outcome)), w1)
               | _ \<Rightarrow> (Inl (handleError P (fst outcome)), w1))"
  using assms
  by (subst axiosInstance.simps) (simp add: Let_def split: http_result.splits)

lemma axiosInstance_retried_trace:
  "retry config \<Longrightarrow>
   trace (snd (axiosInstance P srv config w)) = trace w @ [Sent (request_interceptor P w config)]"
  by (simp add: axiosInstance_retried Let_def split: http_result.splits)

lemma validateStatus_401 [simp]: "\<not> validateStatus 401"
  by (simp add: validateStatus_def)

lemma axiosInstance_401:
  assumes "\<not> retry config"
    and "fst (srv (net w) (request_interceptor P w config)) = Response 401 d"
  shows "axiosInstance P srv config w =
           (let req1 = request_interceptor P w config;
                w1 = w\<lparr>net := snd (srv (net w) req1), trace := trace w @ [Sent req1]\<rparr>;
                refreshed = refreshToken P srv w1
            in if fst refreshed then
                 axiosInstance P srv
                   (req1\<lparr> retry := True,
                      Authorization := Some (''Bearer '' @
                        (case getAccessToken (snd refreshed) of None \<Rightarrow> ''null'' | Some t \<Rightarrow> t)) \<rparr>)
                   (snd refreshed)
               else (Inl (ApiException ''Authentication failed'' (Some 401) JUndefined),
                     clearTokens (snd refreshed)))"
  using assms
  by (subst axiosInstance.simps) (simp add: Let_def)

lemma request_interceptor_bearer:
  "getAccessToken w = Some tok \<Longrightarrow>
   request_interceptor P w (request_interceptor P w0 config
       \<lparr>retry := True, Authorization := Some (''Bearer '' @ tok)\<rparr>)
   = (request_interceptor P w0 config)\<lparr>retry := True, Authorization := Some (''Bearer '' @ tok)\<rparr>"
  by (simp add: request_interceptor_def Let_def split: option.splits)

text \<open>
  Claim C6. A request that has not been retried and is answered with status 401: the
  client calls \<open>refreshToken\<close> once (which posts the stored refresh token, if there is
  one, once). When the refresh succeeds, the original request is sent once more, marked as
  retried and carrying the access token now in storage, and nothing else is sent. When it
  fails, nothing more is sent, the four stored entries are removed and
  \<open>ApiException('Authentication failed', 401)\<close> is thrown. A request that already
  carries the retry mark is sent once, whatever the answer, with no refresh and no retry.
\<close>

theorem unauthorized_request_refreshes_and_retries_once:
  "(\<not> retry config \<and> fst (srv (net w) (request_interceptor P w config)) = Response 401 d
    \<longrightarrow>
     (let req1 = request_interceptor P w config;
          w1 = w\<lparr>net := snd (srv (net w) req1), trace := trace w @ [Sent req1]\<rparr>;
          refreshed = refreshToken P srv w1;
          result = axiosInstance P srv config w
      in trace (snd refreshed) =
           trace w @ [Sent req1, RefreshTokenCalled] @
             (case getRefreshToken w of
                None \<Rightarrow> []
              | Some rt \<Rightarrow> if rt = [] then [] else [SentPlain (refresh_request P rt)])
         \<and> (fst refreshed \<longrightarrow>
              (\<exists>tok. getAccessToken (snd refreshed) = Some tok
                 \<and> trace (snd result) = trace (snd refreshed) @
                     [Sent (req1\<lparr>retry := True, Authorization := Some (''Bearer '' @ tok)\<rparr>)]))
         \<and> (\<not> fst refreshed \<longrightarrow>
              fst result = Inl (ApiException ''Authentication failed'' (Some 401) JUndefined)
              \<and> trace (snd result) = trace (snd refreshed)
              \<and> storage (snd result) ACCESS_TOKEN_KEY = None
              \<and> storage (snd result) REFRESH_TOKEN_KEY = None
              \<and> storage (snd result) USER_KEY = None
              \<and> storage (snd result) AUTH_STORE_KEY = None)))
   \<and> (retry config \<longrightarrow>
        trace (snd (axiosInstance P srv config w))
          = trace w @ [Sent (request_interceptor P w config)])"
proof (intro conjI impI)
  assume "retry config"
  then show "trace (snd (axiosInstance P srv config w))
          = trace w @ [Sent (request_interceptor P w config)]"
    by (rule axiosInstance_retried_trace)
next
  assume a: "\<not> retry config \<and> fst (srv (net w) (request_interceptor P w config)) = Response 401 d"
  define req1 where "req1 = request_interceptor P w config"
  define w1 where "w1 = w\<lparr>net := snd (srv (net w) req1), trace := trace w @ [Sent req1]\<rparr>"
  define refreshed where "refreshed = refreshToken P srv w1"
  define result where "result = axiosInstance P srv config w"
  have rt: "getRefreshToken w1 = getRefreshToken w"
    by (simp add: w1_def getRefreshToken_def)
  have tr: "trace (snd refreshed) =
           trace w @ [Sent req1, RefreshTokenCalled] @
             (case getRefreshToken w of
                None \<Rightarrow> []
              | Some rt \<Rightarrow> if rt = [] then [] else [SentPlain (refresh_request P rt)])"
    unfolding refreshed_def refreshToken_trace rt by (simp add: w1_def)
  have res: "result =
      (if fst refreshed then
         axiosInstance P srv
           (req1\<lparr> retry := True,
              Authorization := Some (''Bearer '' @
                (case getAccessToken (snd refreshed) of None \<Rightarrow> ''null'' | Some t \<Rightarrow> t)) \<rparr>)
           (snd refreshed)
       else (Inl (ApiException ''Authentication failed'' (Some 401) JUndefined),
             clearTokens (snd refreshed)))"
    using a unfolding result_def
    by (simp add: axiosInstance_401 [where d = d] Let_def req1_def w1_def refreshed_def)
  have ok: "\<exists>tok. getAccessToken (snd refreshed) = Some tok
                 \<and> trace (snd result) = trace (snd refreshed) @
                     [Sent (req1\<lparr>retry := True, Authorization := Some (''Bearer '' @ tok)\<rparr>)]"
    if "fst refreshed"
  proof -
    from that obtain tok where tok: "getAccessToken (snd refreshed) = Some tok"
      unfolding refreshed_def using refreshToken_success_access by blast
    have "trace (snd result) = trace (snd refreshed) @
            [Sent (request_interceptor P (snd refreshed)
               (req1\<lparr>retry := True, Authorization := Some (''Bearer '' @ tok)\<rparr>))]"
      using that by (simp add: res tok axiosInstance_retried_trace)
    moreover have "request_interceptor P (snd refreshed)
               (req1\<lparr>retry := True, Authorization := Some (''Bearer '' @ tok)\<rparr>)
             = req1\<lparr>retry := True, Authorization := Some (''Bearer '' @ tok)\<rparr>"
      unfolding req1_def by (rule request_interceptor_bearer [OF tok])
    ultimately show ?thesis
      using tok by (simp only: exI [of _ tok] simp_thms)
  qed
  have bad: "fst result = Inl (ApiException ''Authentication failed'' (Some 401) JUndefined)
              \<and> trace (snd result) = trace (snd refreshed)
              \<and> storage (snd result) ACCESS_TOKEN_KEY = None
              \<and> storage (snd result) REFRESH_TOKEN_KEY = None
              \<and> storage (snd result) USER_KEY = None
              \<and> storage (snd result) AUTH_STORE_KEY = None"
    if "\<not> fst refreshed"
    using that by (simp add: res clearTokens_storage)
  show "let req1 = request_interceptor P w config;
          w1 = w\<lparr>net := snd (srv (net w) req1), trace := trace w @ [Sent req1]\<rparr>;
          refreshed = refreshToken P srv w1;
          result = axiosInstance P srv config w
      in trace (snd refreshed) =
           trace w @ [Sent req1, RefreshTokenCalled] @
             (case getRefreshToken w of
                None \<Rightarrow> []
              | Some rt \<Rightarrow> if rt = [] then [] else [SentPlain (refresh_request P rt)])
         \<and> (fst refreshed \<longrightarrow>
              (\<exists>tok. getAccessToken (snd refreshed) = Some tok
                 \<and> trace (snd result) = trace (snd refreshed) @
                     [Sent (req1\<lparr>retry := True, Authorization := Some (''Bearer '' @ tok)\<rparr>)]))
         \<and> (\<not> fst refreshed \<longrightarrow>
              fst result = Inl (ApiException ''Authentication failed'' (Some 401) JUndefined)
              \<and> trace (snd result) = trace (snd refreshed)
              \<and> storage (snd result) ACCESS_TOKEN_KEY = None
              \<and> storage (snd result) REFRESH_TOKEN_KEY = None
              \<and> storage (snd result) USER_KEY = None
              \<and> storage (snd result) AUTH_STORE_KEY = None)"
    unfolding Let_def
    using tr ok bad unfolding req1_def w1_def refreshed_def result_def by blast
qed

lemmas api_example_defs =
  example_server_def example_request_def example_api_world_def example_platform_def
  request_interceptor_def getAccessToken_def getRefreshToken_def refreshToken_def
  refresh_request_def setTokens_def clearTokens_def to_str_def str_plus_def validateStatus_def
  ACCESS_TOKEN_KEY_def REFRESH_TOKEN_KEY_def USER_KEY_def AUTH_STORE_KEY_def REFRESH_def
  LOGIN_def Let_def

theorem unauthorized_request_refreshes_and_retries_once_witness:
  "trace (snd (axiosInstance example_platform example_server example_request
      (example_api_world [ACCESS_TOKEN_KEY \<mapsto> ''old'', REFRESH_TOKEN_KEY \<mapsto> ''r0''])))
     = [ Sent (example_request\<lparr>Authorization := Some ''Bearer old''\<rparr>),
         RefreshTokenCalled,
         SentPlain (refresh_request example_platform ''r0''),
         Sent (example_request\<lparr>retry := True, Authorization := Some ''Bearer new''\<rparr>) ]
   \<and> fst (axiosInstance example_platform example_server example_request
        (example_api_world Map.empty))
       = Inl (ApiException ''Authentication failed'' (Some 401) JUndefined)
   \<and> trace (snd (axiosInstance example_platform example_server
        (example_request\<lparr>retry := True\<rparr>) (example_api_world Map.empty)))
       = [Sent (example_request\<lparr>retry := True\<rparr>)]"
proof -
  let ?w = "example_api_world [ACCESS_TOKEN_KEY \<mapsto> ''old'', REFRESH_TOKEN_KEY \<mapsto> ''r0'']"
  let ?e = "example_api_world Map.empty"
  have h1: "\<not> retry example_request"
    "fst (example_server (net ?w) (request_interceptor example_platform ?w example_request))
       = Response 401 JNull"
    "fst (example_server (net ?e) (request_interceptor example_platform ?e example_request))
       = Response 401 JNull"
    "retry (example_request\<lparr>retry := True\<rparr>)"
    by (simp_all add: api_example_defs)
  have r1: "fst (refreshToken example_platform example_server
       (?w\<lparr>net := snd (example_server (net ?w)
                 (request_interceptor example_platform ?w example_request)),
           trace := trace ?w @ [Sent (request_interceptor example_platform ?w example_request)]\<rparr>))"
    by (simp add: api_example_defs)
  have r2: "\<not> fst (refreshToken example_platform example_server
       (?e\<lparr>net := snd (example_server (net ?e)
                 (request_interceptor example_platform ?e example_request)),
           trace := trace ?e @ [Sent (request_interceptor example_platform ?e example_request)]\<rparr>))"
    by (simp add: api_example_defs)
  have a1: "getAccessToken (snd (refreshToken example_platform example_server
       (?w\<lparr>net := snd (example_server (net ?w)
                 (request_interceptor example_platform ?w example_request)),
           trace := trace ?w @ [Sent (request_interceptor example_platform ?w example_request)]\<rparr>)))
      = Some ''new''"
    by (simp add: api_example_defs)
  have q: "request_interceptor example_platform ?w example_request
             = example_request\<lparr>Authorization := Some ''Bearer old''\<rparr>"
    "request_interceptor example_platform ?e (example_request\<lparr>retry := True\<rparr>)
             = example_request\<lparr>retry := True\<rparr>"
    "getRefreshToken ?w = Some ''r0''" "trace ?w = []" "trace ?e = []"
    by (simp_all add: api_example_defs)
  from unauthorized_request_refreshes_and_retries_once [of example_request example_server ?w example_platform JNull]
       unauthorized_request_refreshes_and_retries_once [of example_request example_server ?e example_platform JNull]
       unauthorized_request_refreshes_and_retries_once [of "example_request\<lparr>retry := True\<rparr>" example_server ?e example_platform JNull]
       h1 r1 r2 a1
  show ?thesis
    unfolding Let_def q by simp
qed

lemma axiosInstance_throws_ApiException:
  assumes "fst (axiosInstance P srv config w) = Inl e"
  shows "\<exists>m st errs. e = ApiException m st errs"
proof -
  have retried: "\<exists>m st errs. e = ApiException m st errs"
    if "retry c" and "fst (axiosInstance P srv c v) = Inl e" for c v
    using that
    by (auto simp: axiosInstance_retried Let_def handleError_def split: http_result.splits if_splits)
  show ?thesis
  proof (cases "retry config")
    case True
    then show ?thesis using assms retried by blast
  next
    case False
    with assms show ?thesis
      by (subst (asm) axiosInstance.simps)
         (auto simp: Let_def handleError_def dest: retried [rotated]
               split: http_result.splits if_splits)
  qed
qed

lemma post_throws_ApiException:
  "fst (post P srv ep data w) = Inl e \<Longrightarrow> \<exists>m st errs. e = ApiException m st errs"
proof -
  assume a: "fst (post P srv ep data w) = Inl e"
  let ?c = "\<lparr> http_method = ''POST'', endpoint = ep, body = data, Authorization = None,
               ngrok_skip_browser_warning = False, retry = False \<rparr>"
  from a have "fst (axiosInstance P srv ?c w) = Inl e"
    by (auto simp: post_def split: prod.splits sum.splits)
  then show ?thesis by (rule axiosInstance_throws_ApiException)
qed

lemma login_catch_clears:
  "storage (snd (login_catch e w)) ACCESS_TOKEN_KEY = None
   \<and> storage (snd (login_catch e w)) REFRESH_TOKEN_KEY = None
   \<and> storage (snd (login_catch e w)) USER_KEY = None
   \<and> storage (snd (login_catch e w)) AUTH_STORE_KEY = None"
  by (cases e) (simp_all add: login_catch_def clearTokens_storage)

lemma login_catch_fails:
  "\<exists>m st errs. fst (login_catch e w) = Inl (ApiException m st errs)"
  by (cases e) (simp_all add: login_catch_def)

text \<open>
  Claim C10. When \<open>login\<close> throws, it throws an \<open>ApiException\<close> and none of the
  four stored entries (access token, refresh token, user record, auth store) is left.
  When it returns, the response it returns is the one the server gave, its \<open>access\<close>,
  \<open>refresh\<close> and \<open>user\<close> fields are all present (truthy), and storage holds exactly
  these. A response that lacks one of the three fields makes \<open>login\<close> throw.
\<close>

theorem failed_login_leaves_no_tokens:
  "(\<forall>e. fst (login P srv credentials w) = Inl e \<longrightarrow>
        (\<exists>m st errs. e = ApiException m st errs)
        \<and> storage (snd (login P srv credentials w)) ACCESS_TOKEN_KEY = None
        \<and> storage (snd (login P srv credentials w)) REFRESH_TOKEN_KEY = None
        \<and> storage (snd (login P srv credentials w)) USER_KEY = None
        \<and> storage (snd (login P srv credentials w)) AUTH_STORE_KEY = None)
   \<and> (\<forall>response. fst (login P srv credentials w) = Inr response \<longrightarrow>
        truthy (get_prop_opt response ''access'')
        \<and> truthy (get_prop_opt response ''refresh'')
        \<and> truthy (get_prop_opt response ''user'')
        \<and> fst (post P srv LOGIN credentials w) = Inr response
        \<and> storage (snd (login P srv credentials w)) ACCESS_TOKEN_KEY
            = Some (to_str P (get_prop_opt response ''access''))
        \<and> storage (snd (login P srv credentials w)) REFRESH_TOKEN_KEY
            = Some (to_str P (get_prop_opt response ''refresh''))
        \<and> storage (snd (login P srv credentials w)) USER_KEY
            = Some (JSON_stringify P (get_prop_opt response ''user'')))
   \<and> (\<forall>response. fst (post P srv LOGIN credentials w) = Inr response
        \<and> \<not> (truthy (get_prop_opt response ''access'')
              \<and> truthy (get_prop_opt response ''refresh'')
              \<and> truthy (get_prop_opt response ''user''))
        \<longrightarrow> (\<exists>e. fst (login P srv credentials w) = Inl e))"
proof -
  obtain r w1 where p: "post P srv LOGIN credentials w = (r, w1)"
    by (cases "post P srv LOGIN credentials w") auto
  show ?thesis
  proof (cases r)
    case (Inl e)
    then have l: "login P srv credentials w = login_catch e w1"
      by (simp add: login_def p)
    show ?thesis
      using login_catch_fails [of e w1] login_catch_clears [of e w1]
      by (auto simp: l p Inl)
  next
    case (Inr response)
    show ?thesis
    proof (cases "get_prop response ''access''")
      case (Inl e)
      then have l: "login P srv credentials w = login_catch (JsError e) w1"
        by (simp add: login_def p Inr)
      have "get_prop_opt response ''access'' = JUndefined"
        using Inl by (cases response) simp_all
      then show ?thesis
        using login_catch_fails [of "JsError e" w1] login_catch_clears [of "JsError e" w1]
        by (auto simp: l p Inr)
    next
      case acc: (Inr access)
      then have ga: "get_prop_opt response ''access'' = access"
        by (cases response) auto
      show ?thesis
      proof (cases "truthy access \<and> truthy (get_prop_opt response ''refresh'')
                      \<and> truthy (get_prop_opt response ''user'')")
        case True
        then have l: "login P srv credentials w =
            (Inr response, setTokens P access (get_prop_opt response ''refresh'')
                       (get_prop_opt response ''user'') w1)"
          by (simp add: login_def p Inr acc)
        show ?thesis
          using True by (simp add: l p Inr ga setTokens_access setTokens_refresh setTokens_user)
      next
        case False
        let ?x = "ApiException ''Invalid server response: missing required fields''
                         None JUndefined"
        from False have l: "login P srv credentials w = login_catch ?x w1"
          by (auto simp: login_def p Inr acc)
        show ?thesis
          using login_catch_fails [of ?x w1] login_catch_clears [of ?x w1] False
          by (auto simp: l p Inr ga)
      qed
    qed
  qed
qed

theorem failed_login_leaves_no_tokens_witness:
  "fst (login example_platform example_server JNull
          (example_api_world [ACCESS_TOKEN_KEY \<mapsto> ''old'', REFRESH_TOKEN_KEY \<mapsto> ''r0'']))
     = Inl (ApiException ''Invalid server response: missing required fields'' None JUndefined)
   \<and> storage (snd (login example_platform example_server JNull
          (example_api_world [ACCESS_TOKEN_KEY \<mapsto> ''old'', REFRESH_TOKEN_KEY \<mapsto> ''r0''])))
        ACCESS_TOKEN_KEY = None
   \<and> storage (snd (login example_platform example_server JNull
          (example_api_world [ACCESS_TOKEN_KEY \<mapsto> ''old'', REFRESH_TOKEN_KEY \<mapsto> ''r0''])))
        REFRESH_TOKEN_KEY = None
   \<and> storage (snd (login example_platform example_server (JStr ''u'')
          (example_api_world Map.empty))) ACCESS_TOKEN_KEY = Some ''a1''
   \<and> storage (snd (login example_platform example_server (JStr ''u'')
          (example_api_world Map.empty))) REFRESH_TOKEN_KEY = Some ''r1''"
proof -
  let ?w = "example_api_world [ACCESS_TOKEN_KEY \<mapsto> ''old'', REFRESH_TOKEN_KEY \<mapsto> ''r0'']"
  let ?e = "example_api_world Map.empty"
  have p1: "fst (post example_platform example_server LOGIN JNull ?w)
              = Inr (JObj [(''access'', JStr ''a1''), (''refresh'', JStr ''r1'')])"
    by (simp add: post_def axiosInstance.simps api_example_defs)
  have p2: "fst (post example_platform example_server LOGIN (JStr ''u'') ?e)
              = Inr (JObj [(''access'', JStr ''a1''), (''refresh'', JStr ''r1''), (''user'', JStr ''u'')])"
    by (simp add: post_def axiosInstance.simps api_example_defs)
  have l1: "fst (login example_platform example_server JNull ?w)
     = Inl (ApiException ''Invalid server response: missing required fields'' None JUndefined)"
    using p1 by (cases "post example_platform example_server LOGIN JNull ?w")
                (simp add: login_def login_catch_def)
  have l2: "fst (login example_platform example_server (JStr ''u'') ?e)
     = Inr (JObj [(''access'', JStr ''a1''), (''refresh'', JStr ''r1''), (''user'', JStr ''u'')])"
    using p2 by (cases "post example_platform example_server LOGIN (JStr ''u'') ?e")
                (simp add: login_def login_catch_def)
  from failed_login_leaves_no_tokens [of example_platform example_server JNull ?w]
       failed_login_leaves_no_tokens [of example_platform example_server "JStr ''u''" ?e] l1 l2
  show ?thesis
    by (simp add: to_str_def str_plus_def)
qed

end
